theory Spec2Isabelle
  imports Complex_Main
begin

section \<open>Numbers\<close>

text \<open>
  The TypeScript \<open>number\<close> values of a cart (prices, quantities) and everything computed
  from them by \<open>+\<close>, \<open>-\<close> and \<open>*\<close> are taken as exact reals. The one division of the
  payout service, \<open>totalSales / totalAmount\<close>, yields \<open>NaN\<close> or an infinity when the
  order total is zero; such a value, and whatever \<open>*\<close>, \<open>-\<close> and \<open>Math.round\<close> make of it,
  is \<open>NotFinite\<close>.
\<close>

datatype 'a js = Num 'a | NotFinite

definition js_div :: "real \<Rightarrow> real \<Rightarrow> real js" where
  "js_div a b = (if b = 0 then NotFinite else Num (a / b))"

fun js_mul :: "real js \<Rightarrow> real \<Rightarrow> real js" where
  "js_mul (Num a) b = Num (a * b)"
| "js_mul NotFinite b = NotFinite"

fun js_sub :: "real \<Rightarrow> real js \<Rightarrow> real js" where
  "js_sub a (Num b) = Num (a - b)"
| "js_sub a NotFinite = NotFinite"

fun js_add :: "real js \<Rightarrow> real js \<Rightarrow> real js" where
  "js_add (Num a) (Num b) = Num (a + b)"
| "js_add _ _ = NotFinite"

fun js_sum :: "real js list \<Rightarrow> real js" where
  "js_sum [] = Num 0"
| "js_sum (x # xs) = js_add x (js_sum xs)"

text \<open>\<open>Math.round\<close> rounds to the nearest integer, a half upwards: \<open>\<lfloor>x + 1/2\<rfloor>\<close>.\<close>

fun Math_round :: "real js \<Rightarrow> int js" where
  "Math_round (Num x) = Num \<lfloor>x + 1 / 2\<rfloor>"
| "Math_round NotFinite = NotFinite"

section \<open>Catalogue and vendor registry (data/products.tsx, data/vendors.ts)\<close>

record Product =
  product_id :: string
  product_name :: string
  price :: real
  image :: string
  vendor :: string
  product_vendorName :: string
  category :: string
  description :: string
  inventory :: real

record CartItem =
  product :: Product
  quantity :: real

record Vendor =
  vendor_id :: string
  vendor_name :: string
  email :: string
  bank_code :: string
  bank_account_number :: string
  bank_account_name :: string
  subaccount_code :: string
  settlement_balance :: real

text \<open>\<open>process.env\<close>: a variable is unset (\<open>None\<close>) or holds a string.\<close>

type_synonym env = "string \<rightharpoonup> string"

text \<open>\<open>process.env.X || d\<close>: the default is taken when the variable is unset or empty.\<close>

definition env_or :: "env \<Rightarrow> string \<Rightarrow> string \<Rightarrow> string" where
  "env_or env k d = (case env k of None \<Rightarrow> d | Some v \<Rightarrow> if v = [] then d else v)"

definition vendors :: "env \<Rightarrow> Vendor list" where
  "vendors env =
    [\<lparr>vendor_id = ''VENDOR_001'', vendor_name = ''Fresh Farms'',
      email = ''freshfarms@example.com'', bank_code = ''058'',
      bank_account_number = ''0123456789'', bank_account_name = ''Fresh Farms Ltd'',
      subaccount_code = env_or env ''PAYSTACK_FRESH_FARMS_SUBACCOUNT'' ''ACCT_xxx1'',
      settlement_balance = 0\<rparr>,
     \<lparr>vendor_id = ''VENDOR_002'', vendor_name = ''Vegetable King'',
      email = ''vegeking@example.com'', bank_code = ''058'',
      bank_account_number = ''0123456780'', bank_account_name = ''Vegetable King Ltd'',
      subaccount_code = env_or env ''PAYSTACK_VEGETABLE_KING_SUBACCOUNT'' ''ACCT_xxx2'',
      settlement_balance = 0\<rparr>,
     \<lparr>vendor_id = ''VENDOR_003'', vendor_name = ''Meat Masters'',
      email = ''meatmasters@example.com'', bank_code = ''058'',
      bank_account_number = ''0123456781'', bank_account_name = ''Meat Masters Ltd'',
      subaccount_code = env_or env ''PAYSTACK_MEAT_MASTERS_SUBACCOUNT'' ''ACCT_xxx3'',
      settlement_balance = 0\<rparr>,
     \<lparr>vendor_id = ''VENDOR_004'', vendor_name = ''Dairy Delight'',
      email = ''dairydelight@example.com'', bank_code = ''058'',
      bank_account_number = ''0123456782'', bank_account_name = ''Dairy Delight Ltd'',
      subaccount_code = env_or env ''PAYSTACK_DAIRY_DELIGHT_SUBACCOUNT'' ''ACCT_xxx4'',
      settlement_balance = 0\<rparr>,
     \<lparr>vendor_id = ''VENDOR_005'', vendor_name = ''Bakery Corner'',
      email = ''bakerycorner@example.com'', bank_code = ''058'',
      bank_account_number = ''0123456783'', bank_account_name = ''Bakery Corner Ltd'',
      subaccount_code = env_or env ''PAYSTACK_BAKERY_CORNER_SUBACCOUNT'' ''ACCT_xxx5'',
      settlement_balance = 0\<rparr>,
     \<lparr>vendor_id = ''VENDOR_006'', vendor_name = ''Grains Galore'',
      email = ''grainsgalore@example.com'', bank_code = ''058'',
      bank_account_number = ''0123456784'', bank_account_name = ''Grains Galore Ltd'',
      subaccount_code = env_or env ''PAYSTACK_GRAINS_GALORE_SUBACCOUNT'' ''ACCT_xxx6'',
      settlement_balance = 0\<rparr>]"

text \<open>\<open>vendors.find(v => v.id === vendorId)\<close>\<close>

definition findVendor :: "env \<Rightarrow> string \<Rightarrow> Vendor option" where
  "findVendor env vid = find (\<lambda>v. vendor_id v = vid) (vendors env)"

section \<open>Payout splitting (services/vendorPayoutService.ts)\<close>

record PayoutCalculation =
  vendorId :: string
  vendorName :: string
  totalSales :: real
  platformFee :: real
  paystackFeeShare :: "real js"
  vendorPayout :: "real js"
  items :: "CartItem list"

record OrderSplit =
  totalAmount :: real
  platformRevenue :: real
  totalPaystackFee :: real
  vendorPayouts :: "PayoutCalculation list"

datatype error = TypeError | VendorNotFound string

text \<open>
  \<open>vendorSales\<close> is a plain object literal \<open>{}\<close>, so a read \<open>vendorSales[k]\<close> at a name it
  inherits from \<open>Object.prototype\<close> finds a truthy value without an \<open>items\<close> array: the
  group is not initialised and \<open>.items.push\<close> throws a \<open>TypeError\<close>.
\<close>

definition objectPrototypeKeys :: "string list" where
  "objectPrototypeKeys =
    [''constructor'', ''__defineGetter__'', ''__defineSetter__'', ''hasOwnProperty'',
     ''__lookupGetter__'', ''__lookupSetter__'', ''isPrototypeOf'', ''propertyIsEnumerable'',
     ''toString'', ''valueOf'', ''__proto__'', ''toLocaleString'']"

text \<open>
  The own properties of \<open>vendorSales\<close>, in the order in which they were first written.
  (\<open>Object.entries\<close> lists keys that are canonical array indices before the others; no
  vendor of the registry has such an id, so those entries are skipped by the payout loop
  and their position does not reach the result.)
\<close>

type_synonym vendorSales = "(string \<times> CartItem list \<times> real) list"

fun addSale :: "string \<Rightarrow> CartItem \<Rightarrow> vendorSales \<Rightarrow> vendorSales" where
  "addSale k item [] = []"
| "addSale k item ((k', its, subtotal) # rest) =
     (if k' = k then (k', its @ [item], subtotal + price (product item) * quantity item) # rest
      else (k', its, subtotal) # addSale k item rest)"

definition groupItem :: "vendorSales \<Rightarrow> CartItem \<Rightarrow> error + vendorSales" where
  "groupItem sales item =
     (let vendorId' = vendor (product item) in
      if vendorId' \<in> set objectPrototypeKeys then Inl TypeError
      else if vendorId' \<in> fst ` set sales then Inr (addSale vendorId' item sales)
      else Inr (addSale vendorId' item (sales @ [(vendorId', [], 0)])))"

fun groupItems :: "vendorSales \<Rightarrow> CartItem list \<Rightarrow> error + vendorSales" where
  "groupItems sales [] = Inr sales"
| "groupItems sales (item # rest) =
     (case groupItem sales item of Inl e \<Rightarrow> Inl e | Inr sales' \<Rightarrow> groupItems sales' rest)"

text \<open>
  The body of the payout loop: one entry of \<open>vendorSales\<close> and the two accumulators.
  (Local names carry a prime where the source's name is a record field here.)
\<close>

fun payoutStep ::
  "env \<Rightarrow> real \<Rightarrow> real \<Rightarrow> PayoutCalculation list \<times> real \<Rightarrow> string \<times> CartItem list \<times> real
     \<Rightarrow> PayoutCalculation list \<times> real" where
  "payoutStep env totalAmount' totalPaystackFee' (vendorPayouts', totalPlatformRevenue)
       (vendorId', its, subtotal) =
     (case findVendor env vendorId' of
        None \<Rightarrow> (vendorPayouts', totalPlatformRevenue)
      | Some v \<Rightarrow>
          let totalSales' = subtotal;
              platformFee' = totalSales' * (10 / 100);
              vendorShareOfTotal = js_div totalSales' totalAmount';
              paystackFeeShare' = js_mul vendorShareOfTotal totalPaystackFee';
              vendorPayout' = js_sub (totalSales' - platformFee') paystackFeeShare'
          in (vendorPayouts' @
                [\<lparr>vendorId = vendorId', vendorName = vendor_name v,
                  totalSales = totalSales', platformFee = platformFee',
                  paystackFeeShare = paystackFeeShare', vendorPayout = vendorPayout',
                  items = its\<rparr>],
              totalPlatformRevenue + platformFee'))"

fun payoutLoop ::
  "env \<Rightarrow> real \<Rightarrow> real \<Rightarrow> PayoutCalculation list \<times> real \<Rightarrow> vendorSales
     \<Rightarrow> PayoutCalculation list \<times> real" where
  "payoutLoop env totalAmount' totalPaystackFee' acc [] = acc"
| "payoutLoop env totalAmount' totalPaystackFee' acc (entry # rest) =
     payoutLoop env totalAmount' totalPaystackFee'
       (payoutStep env totalAmount' totalPaystackFee' acc entry) rest"

definition cartTotal :: "CartItem list \<Rightarrow> real" where
  "cartTotal cartItems =
     foldl (\<lambda>acc item. acc + price (product item) * quantity item) 0 cartItems"

definition calculateOrderSplit :: "env \<Rightarrow> CartItem list \<Rightarrow> error + OrderSplit" where
  "calculateOrderSplit env cartItems =
     (case groupItems [] cartItems of
        Inl e \<Rightarrow> Inl e
      | Inr sales \<Rightarrow>
          let totalAmount' = cartTotal cartItems;
              totalPaystackFee' = totalAmount' * (15 / 1000) + 100
          in case payoutLoop env totalAmount' totalPaystackFee' ([], 0) sales of
               (vendorPayouts', totalPlatformRevenue) \<Rightarrow>
                 Inr \<lparr>totalAmount = totalAmount', platformRevenue = totalPlatformRevenue,
                      totalPaystackFee = totalPaystackFee', vendorPayouts = vendorPayouts'\<rparr>)"

text \<open>
  One element of the array handed to the gateway. A vendor's \<open>subaccount\<close> is its
  \<open>subaccount_code\<close>; the platform's is \<open>process.env.PAYSTACK_GRUNDY_SUBACCOUNT\<close>, which
  may be unset.
\<close>

record Subaccount =
  subaccount :: "string option"
  share :: "int js"

text \<open>The \<open>map\<close> over \<open>vendorPayouts\<close>; the first payout without a vendor throws.\<close>

fun vendorSubaccounts :: "env \<Rightarrow> PayoutCalculation list \<Rightarrow> error + Subaccount list" where
  "vendorSubaccounts env [] = Inr []"
| "vendorSubaccounts env (payout # rest) =
     (case findVendor env (vendorId payout) of
        None \<Rightarrow> Inl (VendorNotFound (vendorId payout))
      | Some v \<Rightarrow>
          let vendorShare = vendorPayout payout in
          (case vendorSubaccounts env rest of
             Inl e \<Rightarrow> Inl e
           | Inr subaccounts \<Rightarrow>
               Inr (\<lparr>subaccount = Some (subaccount_code v),
                     share = Math_round (js_mul vendorShare 100)\<rparr> # subaccounts)))"

definition generateSubaccountsForSplit :: "env \<Rightarrow> OrderSplit \<Rightarrow> error + Subaccount list" where
  "generateSubaccountsForSplit env orderSplit =
     (case vendorSubaccounts env (vendorPayouts orderSplit) of
        Inl e \<Rightarrow> Inl e
      | Inr subaccounts \<Rightarrow>
          let platformTotalShare = platformRevenue orderSplit + totalPaystackFee orderSplit
          in Inr (subaccounts @
                   [\<lparr>subaccount = env ''PAYSTACK_GRUNDY_SUBACCOUNT'',
                     share = Math_round (Num (platformTotalShare * 100))\<rparr>]))"

definition shouldUseSplitPayment :: "OrderSplit \<Rightarrow> bool" where
  "shouldUseSplitPayment orderSplit = (length (vendorPayouts orderSplit) > 1)"

section \<open>Order tracking (services/orderTrackingService.ts)\<close>

datatype PaymentMethod = prepay_now | bank_transfer_delivery | terminal_delivery

datatype PaymentStatus = pending | paid | failed | refunded | delivered

text \<open>
  A payment notification (\<open>paymentData: any\<close>): the fields the tracking service and the
  webhook read, each possibly absent, and the two that the webhook adds before it stores
  the payload.
\<close>

record PaymentData =
  reference :: "string option"
  pd_amount :: "real option"
  channel :: "string option"
  metadata_orderReference :: "string option"
  customer_email :: "string option"
  pd_orderReference :: "string option"
  transactionReference :: "string option"

record Order =
  order_id :: string
  orderReference :: string
  customerEmail :: string
  customerName :: string
  deliveryAddress :: "string option"
  amount :: real
  order_items :: "CartItem list"
  paymentMethod :: PaymentMethod
  paymentStatus :: PaymentStatus
  paymentReference :: "string option"
  paymentDetails :: "PaymentData option"
  order_vendorPayouts :: "PayoutCalculation list option"
  createdAt :: string
  paidAt :: "string option"
  deliveredAt :: "string option"
  riderId :: "string option"
  terminalId :: "string option"

text \<open>\<open>Omit<Order, 'id' | 'createdAt' | 'paymentStatus'>\<close>\<close>

record OrderData =
  od_orderReference :: string
  od_customerEmail :: string
  od_customerName :: string
  od_deliveryAddress :: "string option"
  od_amount :: real
  od_items :: "CartItem list"
  od_paymentMethod :: PaymentMethod
  od_paymentReference :: "string option"
  od_paymentDetails :: "PaymentData option"
  od_vendorPayouts :: "PayoutCalculation list option"
  od_paidAt :: "string option"
  od_deliveredAt :: "string option"
  od_riderId :: "string option"
  od_terminalId :: "string option"

text \<open>
  The module's \<open>orders\<close> array is the state; every operation takes it and returns it.
  The clock is an argument: \<open>dateNow\<close> is the decimal text of \<open>Date.now()\<close>, \<open>nowISO\<close> the
  text of \<open>new Date().toISOString()\<close>.
\<close>

definition createOrder :: "Order list \<Rightarrow> OrderData \<Rightarrow> string \<Rightarrow> string \<Rightarrow> Order \<times> Order list" where
  "createOrder orders orderData dateNow nowISO =
     (let order =
        \<lparr>order_id = ''order_'' @ dateNow,
         orderReference = od_orderReference orderData,
         customerEmail = od_customerEmail orderData,
         customerName = od_customerName orderData,
         deliveryAddress = od_deliveryAddress orderData,
         amount = od_amount orderData,
         order_items = od_items orderData,
         paymentMethod = od_paymentMethod orderData,
         paymentStatus = pending,
         paymentReference = od_paymentReference orderData,
         paymentDetails = od_paymentDetails orderData,
         order_vendorPayouts = od_vendorPayouts orderData,
         createdAt = nowISO,
         paidAt = od_paidAt orderData,
         deliveredAt = od_deliveredAt orderData,
         riderId = od_riderId orderData,
         terminalId = od_terminalId orderData\<rparr>
      in (order, orders @ [order]))"

text \<open>
  \<open>const order = orders.find(p); if (order) { ... }\<close>: the first element that satisfies
  \<open>p\<close> is updated in place, nothing else changes.
\<close>

fun updateFound :: "('a \<Rightarrow> bool) \<Rightarrow> ('a \<Rightarrow> 'a) \<Rightarrow> 'a list \<Rightarrow> 'a list" where
  "updateFound p f [] = []"
| "updateFound p f (x # xs) = (if p x then f x # xs else x # updateFound p f xs)"

text \<open>A string that may be absent is truthy when it is present and not empty.\<close>

fun truthy :: "string option \<Rightarrow> bool" where
  "truthy None = False"
| "truthy (Some s) = (s \<noteq> [])"

text \<open>The assignments to the order that \<open>updateOrderPaymentStatus\<close> has found.\<close>

definition applyPayment :: "PaymentStatus \<Rightarrow> PaymentData option \<Rightarrow> string \<Rightarrow> Order \<Rightarrow> Order" where
  "applyPayment status paymentData nowISO order =
     (let r = (case paymentData of None \<Rightarrow> None | Some d \<Rightarrow> reference d);
          order1 = order\<lparr>paymentStatus := status,
                         paymentReference := (if truthy r then r else paymentReference order),
                         paymentDetails := paymentData\<rparr>
      in if status = paid then order1\<lparr>paidAt := Some nowISO\<rparr> else order1)"

definition updateOrderPaymentStatus ::
  "Order list \<Rightarrow> string \<Rightarrow> PaymentStatus \<Rightarrow> PaymentData option \<Rightarrow> string \<Rightarrow> Order list" where
  "updateOrderPaymentStatus orders ref status paymentData nowISO =
     updateFound (\<lambda>x. orderReference x = ref) (applyPayment status paymentData nowISO) orders"

definition updateOrderDeliveryStatus ::
  "Order list \<Rightarrow> string \<Rightarrow> string option \<Rightarrow> string option \<Rightarrow> Order list" where
  "updateOrderDeliveryStatus orders ref rider terminal =
     updateFound (\<lambda>x. orderReference x = ref)
       (\<lambda>order. order\<lparr>riderId := rider, terminalId := terminal\<rparr>) orders"

definition completeOrderDelivery :: "Order list \<Rightarrow> string \<Rightarrow> string \<Rightarrow> Order list" where
  "completeOrderDelivery orders ref nowISO =
     updateFound (\<lambda>x. orderReference x = ref)
       (\<lambda>order. order\<lparr>deliveredAt := Some nowISO, paymentStatus := delivered\<rparr>) orders"

definition getOrderByReference :: "Order list \<Rightarrow> string \<Rightarrow> Order option" where
  "getOrderByReference orders ref = find (\<lambda>x. orderReference x = ref) orders"

definition getAllOrders :: "Order list \<Rightarrow> Order list" where
  "getAllOrders orders = orders"

section \<open>Charge notifications (app/api/webhooks/paystack/route.ts)\<close>

text \<open>
  The three lookups of \<open>handleChargeSuccess\<close>, in the source's order. The result is the
  pair of \<open>orderReference\<close> and \<open>existingOrder\<close> as they stand after method 3;
  \<open>existingOrder\<close> is \<open>None\<close> when no method found an order.
\<close>

definition method1 :: "Order list \<Rightarrow> PaymentData \<Rightarrow> string option \<times> Order option" where
  "method1 orders paymentData =
     (let ref = metadata_orderReference paymentData in
      if truthy ref then (ref, getOrderByReference orders (the ref)) else (ref, None))"

definition method2 ::
  "Order list \<Rightarrow> PaymentData \<Rightarrow> string option \<times> Order option \<Rightarrow> string option \<times> Order option" where
  "method2 orders paymentData st =
     (case st of
        (ref, Some existingOrder) \<Rightarrow> (ref, Some existingOrder)
      | (ref, None) \<Rightarrow>
          (case find (\<lambda>order. paymentReference order = reference paymentData)
                  (getAllOrders orders) of
             None \<Rightarrow> (ref, None)
           | Some existingOrder \<Rightarrow> (Some (orderReference existingOrder), Some existingOrder)))"

definition method3 ::
  "Order list \<Rightarrow> PaymentData \<Rightarrow> string option \<times> Order option \<Rightarrow> string option \<times> Order option" where
  "method3 orders paymentData st =
     (case st of
        (ref, Some existingOrder) \<Rightarrow> (ref, Some existingOrder)
      | (ref, None) \<Rightarrow>
          if truthy (customer_email paymentData) then
            (let matchingOrders =
               filter (\<lambda>order. customerEmail order = the (customer_email paymentData) \<and>
                         (case pd_amount paymentData of
                            None \<Rightarrow> False
                          | Some a \<Rightarrow> amount order = a / 100))
                 (getAllOrders orders)
             in case matchingOrders of
                  [existingOrder] \<Rightarrow> (Some (orderReference existingOrder), Some existingOrder)
                | _ \<Rightarrow> (ref, None))
          else (ref, None))"

definition resolveOrder :: "Order list \<Rightarrow> PaymentData \<Rightarrow> string option \<times> Order option" where
  "resolveOrder orders paymentData =
     method3 orders paymentData (method2 orders paymentData (method1 orders paymentData))"

text \<open>
  What a call of \<open>handleChargeSuccess\<close> does to the order store, up to and including its
  call of \<open>updateOrderPaymentStatus\<close>; the statements after it only log, or (in
  development mode, for a terminal payment) send a request to another endpoint.
  \<open>Unresolved\<close> is the early \<open>return\<close> after the "Could not find order" log.
\<close>

datatype outcome = Unresolved | Applied string

definition handleChargeSuccess :: "Order list \<Rightarrow> PaymentData \<Rightarrow> string \<Rightarrow> outcome \<times> Order list" where
  "handleChargeSuccess orders paymentData nowISO =
     (case resolveOrder orders paymentData of
        (ref, None) \<Rightarrow> (Unresolved, orders)
      | (ref, Some existingOrder) \<Rightarrow>
          (Applied (the ref),
           updateOrderPaymentStatus orders (the ref) paid
             (Some (paymentData\<lparr>pd_orderReference := ref,
                                transactionReference := reference paymentData\<rparr>))
             nowISO))"

section \<open>Sequences of operations on the store\<close>

datatype operation =
    CreateOrder OrderData string string
  | UpdateOrderPaymentStatus string PaymentStatus "PaymentData option" string
  | UpdateOrderDeliveryStatus string "string option" "string option"
  | CompleteOrderDelivery string string
  | HandleChargeSuccess PaymentData string

fun perform :: "Order list \<Rightarrow> operation \<Rightarrow> Order list" where
  "perform orders (CreateOrder orderData dateNow nowISO) =
     snd (createOrder orders orderData dateNow nowISO)"
| "perform orders (UpdateOrderPaymentStatus ref status paymentData nowISO) =
     updateOrderPaymentStatus orders ref status paymentData nowISO"
| "perform orders (UpdateOrderDeliveryStatus ref rider terminal) =
     updateOrderDeliveryStatus orders ref rider terminal"
| "perform orders (CompleteOrderDelivery ref nowISO) =
     completeOrderDelivery orders ref nowISO"
| "perform orders (HandleChargeSuccess paymentData nowISO) =
     snd (handleChargeSuccess orders paymentData nowISO)"

fun performAll :: "Order list \<Rightarrow> operation list \<Rightarrow> Order list" where
  "performAll orders [] = orders"
| "performAll orders (op # ops) = performAll (perform orders op) ops"

section \<open>Properties and example data\<close>

text \<open>A vendor id is registered when the registry lookup finds a vendor.\<close>

definition registered :: "env \<Rightarrow> string \<Rightarrow> bool" where
  "registered env vid = (findVendor env vid \<noteq> None)"

definition lineTotal :: "CartItem \<Rightarrow> real" where
  "lineTotal item = price (product item) * quantity item"

text \<open>
  Split conservation as the specification words it: the vendors' sales add up to the
  order total, and payouts, platform revenue and processing fee add up to the order
  total within one minor unit. Amounts are in the major unit, so a minor unit is
  \<open>1/100\<close>.
\<close>

fun withinMinorUnit :: "real js \<Rightarrow> real \<Rightarrow> bool" where
  "withinMinorUnit (Num x) y = (\<bar>x - y\<bar> \<le> 1 / 100)"
| "withinMinorUnit NotFinite y = False"

definition distributed :: "OrderSplit \<Rightarrow> real js" where
  "distributed s =
     js_add (js_add (js_sum (map vendorPayout (vendorPayouts s))) (Num (platformRevenue s)))
       (Num (totalPaystackFee s))"

definition splitConserved :: "OrderSplit \<Rightarrow> bool" where
  "splitConserved s =
     (sum_list (map totalSales (vendorPayouts s)) = totalAmount s \<and>
      withinMinorUnit (distributed s) (totalAmount s))"

text \<open>The sum of the shares of a gateway configuration, in minor units.\<close>

fun shareSum :: "Subaccount list \<Rightarrow> int js" where
  "shareSum [] = Num 0"
| "shareSum (x # xs) =
     (case (share x, shareSum xs) of (Num a, Num b) \<Rightarrow> Num (a + b) | _ \<Rightarrow> NotFinite)"

definition sharesConserve :: "OrderSplit \<Rightarrow> Subaccount list \<Rightarrow> bool" where
  "sharesConserve s subs =
     (case shareSum subs of Num k \<Rightarrow> real_of_int k = totalAmount s * 100 | NotFinite \<Rightarrow> False)"

text \<open>The payout that the loop body pushes for an entry of a registered vendor.\<close>

fun payoutOf :: "env \<Rightarrow> real \<Rightarrow> real \<Rightarrow> string \<times> CartItem list \<times> real \<Rightarrow> PayoutCalculation" where
  "payoutOf env totalAmount' totalPaystackFee' (k, its, subtotal) =
     \<lparr>vendorId = k, vendorName = vendor_name (the (findVendor env k)),
      totalSales = subtotal, platformFee = subtotal * (10 / 100),
      paystackFeeShare = js_mul (js_div subtotal totalAmount') totalPaystackFee',
      vendorPayout =
        js_sub (subtotal - subtotal * (10 / 100))
          (js_mul (js_div subtotal totalAmount') totalPaystackFee'),
      items = its\<rparr>"

text \<open>Entries 1 to 3 of the \<open>products\<close> array, and a product of no registered vendor.\<close>

definition freshApples :: Product where
  "freshApples =
     \<lparr>product_id = ''1'', product_name = ''Fresh Apples'', price = 1200,
      image = ''https://images.unsplash.com/photo-1568702846914-96b305d2aaeb?w=300&h=200&fit=crop'',
      vendor = ''VENDOR_001'', product_vendorName = ''Fresh Farms'', category = ''Fruits'',
      description = ''Crisp and sweet red apples'', inventory = 50\<rparr>"

definition carrots :: Product where
  "carrots =
     \<lparr>product_id = ''2'', product_name = ''Carrots'', price = 800,
      image = ''https://images.unsplash.com/photo-1598170845058-32b9d6a5da37?w=300&h=200&fit=crop'',
      vendor = ''VENDOR_002'', product_vendorName = ''Vegetable King'',
      category = ''Vegetables'', description = ''Fresh organic carrots'', inventory = 30\<rparr>"

definition chickenBreast :: Product where
  "chickenBreast =
     \<lparr>product_id = ''3'', product_name = ''Chicken Breast'', price = 2500,
      image = ''https://images.unsplash.com/photo-1604503468506-a8da13d82791?w=300&h=200&fit=crop'',
      vendor = ''VENDOR_003'', product_vendorName = ''Meat Masters'',
      category = ''Meat & Poultry'', description = ''Boneless chicken breast'',
      inventory = 20\<rparr>"

definition strayProduct :: Product where
  "strayProduct =
     \<lparr>product_id = ''99'', product_name = ''Honey'', price = 500, image = ''honey.jpg'',
      vendor = ''VENDOR_999'', product_vendorName = ''Bee Yard'', category = ''Pantry'',
      description = ''Jar of honey'', inventory = 5\<rparr>"

definition cart3 :: "CartItem list" where
  "cart3 =
     [\<lparr>product = freshApples, quantity = 1\<rparr>, \<lparr>product = carrots, quantity = 1\<rparr>,
      \<lparr>product = chickenBreast, quantity = 1\<rparr>]"

definition strayCart :: "CartItem list" where
  "strayCart =
     [\<lparr>product = freshApples, quantity = 1\<rparr>, \<lparr>product = strayProduct, quantity = 2\<rparr>]"

definition freeCart :: "CartItem list" where
  "freeCart = [\<lparr>product = freshApples, quantity = 0\<rparr>]"

text \<open>Two orders of one customer for the same amount, as \<open>createOrder\<close> stores them.\<close>

definition orderA :: Order where
  "orderA =
     \<lparr>order_id = ''order_1735725600000'', orderReference = ''ORDER_A'',
      customerEmail = ''ada@example.com'', customerName = ''ada'', deliveryAddress = None,
      amount = 4500, order_items = cart3, paymentMethod = prepay_now,
      paymentStatus = pending, paymentReference = None, paymentDetails = None,
      order_vendorPayouts = None, createdAt = ''2025-01-01T10:00:00.000Z'', paidAt = None,
      deliveredAt = None, riderId = None, terminalId = None\<rparr>"

definition orderB :: Order where
  "orderB =
     orderA\<lparr>order_id := ''order_1735725660000'', orderReference := ''ORDER_B'',
            createdAt := ''2025-01-01T10:01:00.000Z''\<rparr>"

definition dataA :: OrderData where
  "dataA =
     \<lparr>od_orderReference = ''ORDER_A'', od_customerEmail = ''ada@example.com'',
      od_customerName = ''ada'', od_deliveryAddress = None, od_amount = 4500,
      od_items = cart3, od_paymentMethod = prepay_now, od_paymentReference = None,
      od_paymentDetails = None, od_vendorPayouts = None, od_paidAt = None,
      od_deliveredAt = None, od_riderId = None, od_terminalId = None\<rparr>"

text \<open>A charge notification for order A, and one that names no order and no transaction.\<close>

definition chargeA :: PaymentData where
  "chargeA =
     \<lparr>reference = Some ''T_1001'', pd_amount = Some 450000, channel = Some ''card'',
      metadata_orderReference = Some ''ORDER_A'', customer_email = Some ''ada@example.com'',
      pd_orderReference = None, transactionReference = None\<rparr>"

definition bareCharge :: PaymentData where
  "bareCharge =
     \<lparr>reference = None, pd_amount = Some 450000, channel = Some ''card'',
      metadata_orderReference = None, customer_email = Some ''ada@example.com'',
      pd_orderReference = None, transactionReference = None\<rparr>"

text \<open>The order that a second \<open>createOrder\<close> with the data of order A stores.\<close>

definition orderA2 :: Order where
  "orderA2 =
     orderA\<lparr>order_id := ''order_1735725660000'', createdAt := ''2025-01-01T10:01:00.000Z''\<rparr>"

text \<open>An order is placed, paid and delivered.\<close>

definition life :: "operation list" where
  "life = [CreateOrder dataA ''1735725600000'' ''2025-01-01T10:00:00.000Z'',
       UpdateOrderPaymentStatus ''ORDER_A'' paid (Some chargeA) ''2025-01-01T10:05:00.000Z'',
       CompleteOrderDelivery ''ORDER_A'' ''2025-01-01T11:00:00.000Z'']"

text \<open>
  The order at index \<open>i\<close> is \<open>new\<close>, and an order before it carries the same reference.
\<close>

definition shadowedAt :: "Order list \<Rightarrow> nat \<Rightarrow> Order \<Rightarrow> bool" where
  "shadowedAt orders i new =
     (i < length orders \<and> orders ! i = new \<and>
      (\<exists>j<i. orderReference (orders ! j) = orderReference new))"

text \<open>The running total of an entry of \<open>vendorSales\<close>.\<close>

definition subtotalOf :: "string \<times> CartItem list \<times> real \<Rightarrow> real" where
  "subtotalOf e = snd (snd e)"

section \<open>Grouping a cart by vendor\<close>

lemma findVendor_not_proto: "findVendor env v = Some x \<Longrightarrow> v \<notin> set objectPrototypeKeys"
  by (auto simp: findVendor_def vendors_def objectPrototypeKeys_def split: if_splits)

lemma cartTotal_foldl:
  "foldl (\<lambda>acc item. acc + price (product item) * quantity item) a xs
     = a + sum_list (map lineTotal xs)"
  by (induction xs arbitrary: a) (simp_all add: lineTotal_def)

lemma cartTotal_sum: "cartTotal xs = sum_list (map lineTotal xs)"
  by (simp add: cartTotal_def cartTotal_foldl)


lemma addSale_keys: "map fst (addSale k item sales) = map fst sales"
  by (induction sales) auto

lemma addSale_sum:
  "k \<in> fst ` set sales \<Longrightarrow>
   sum_list (map subtotalOf (filter (\<lambda>e. P (fst e)) (addSale k item sales)))
     = sum_list (map subtotalOf (filter (\<lambda>e. P (fst e)) sales)) + (if P k then lineTotal item else 0)"
proof (induction sales)
  case Nil
  then show ?case by simp
next
  case (Cons e rest)
  obtain k' its t where e: "e = (k', its, t)" by (cases e)
  show ?case
  proof (cases "k' = k")
    case True
    then show ?thesis by (simp add: e subtotalOf_def lineTotal_def)
  next
    case False
    with Cons.prems have "k \<in> fst ` set rest" by (auto simp: e)
    from Cons.IH[OF this] show ?thesis using False by (simp add: e)
  qed
qed

lemma groupItem_keys:
  "groupItem sales item = Inr sales' \<Longrightarrow>
   map fst sales' = (if vendor (product item) \<in> fst ` set sales then map fst sales
                     else map fst sales @ [vendor (product item)])"
  by (auto simp: groupItem_def Let_def addSale_keys split: if_splits)

lemma groupItem_sum:
  assumes "groupItem sales item = Inr sales'"
  shows "sum_list (map subtotalOf (filter (\<lambda>e. P (fst e)) sales'))
     = sum_list (map subtotalOf (filter (\<lambda>e. P (fst e)) sales))
       + (if P (vendor (product item)) then lineTotal item else 0)"
proof (cases "vendor (product item) \<in> fst ` set sales")
  case True
  with assms have "sales' = addSale (vendor (product item)) item sales"
    by (auto simp: groupItem_def Let_def split: if_splits)
  then show ?thesis using True by (simp add: addSale_sum)
next
  case False
  with assms have s: "sales' = addSale (vendor (product item)) item (sales @ [(vendor (product item), [], 0)])"
    by (auto simp: groupItem_def Let_def split: if_splits)
  have "vendor (product item) \<in> fst ` set (sales @ [(vendor (product item), [], 0)])" by simp
  from addSale_sum[OF this, of P item] show ?thesis
    unfolding s by (simp add: subtotalOf_def)
qed

lemma groupItems_sum:
  "groupItems sales cart = Inr sales' \<Longrightarrow>
   sum_list (map subtotalOf (filter (\<lambda>e. P (fst e)) sales'))
     = sum_list (map subtotalOf (filter (\<lambda>e. P (fst e)) sales))
       + sum_list (map lineTotal (filter (\<lambda>item. P (vendor (product item))) cart))"
proof (induction cart arbitrary: sales)
  case Nil
  then show ?case by simp
next
  case (Cons item rest)
  then obtain mid where m: "groupItem sales item = Inr mid" and r: "groupItems mid rest = Inr sales'"
    by (auto split: sum.splits)
  show ?case using Cons.IH[OF r] groupItem_sum[OF m, of P] by simp
qed

lemma groupItems_keys:
  "groupItems sales cart = Inr sales' \<Longrightarrow> distinct (map fst sales) \<Longrightarrow>
   distinct (map fst sales') \<and>
   set (map fst sales') = set (map fst sales) \<union> (\<lambda>item. vendor (product item)) ` set cart"
proof (induction cart arbitrary: sales)
  case Nil
  then show ?case by simp
next
  case (Cons item rest)
  then obtain mid where m: "groupItem sales item = Inr mid" and r: "groupItems mid rest = Inr sales'"
    by (auto split: sum.splits)
  have d: "distinct (map fst mid)"
    using groupItem_keys[OF m] Cons.prems(2) by (auto split: if_splits)
  have k: "set (map fst mid) = insert (vendor (product item)) (set (map fst sales))"
    using groupItem_keys[OF m] by (auto split: if_splits)
  show ?case using Cons.IH[OF r d] k by auto
qed

lemma groupItems_ok:
  "\<forall>item \<in> set cart. vendor (product item) \<notin> set objectPrototypeKeys \<Longrightarrow>
   \<exists>sales'. groupItems sales cart = Inr sales'"
  by (induction cart arbitrary: sales) (auto simp: groupItem_def Let_def)

lemma groupItems_error:
  "groupItems sales cart = Inl e \<Longrightarrow>
   e = TypeError \<and> (\<exists>item \<in> set cart. vendor (product item) \<in> set objectPrototypeKeys)"
  by (induction cart arbitrary: sales) (auto simp: groupItem_def Let_def split: if_splits sum.splits)

lemma payoutStep_eq:
  "payoutStep env T F (ps, r) e =
     (if registered env (fst e) then (ps @ [payoutOf env T F e], r + subtotalOf e * (10 / 100))
      else (ps, r))"
  by (cases e) (auto simp: registered_def subtotalOf_def Let_def split: option.splits)

lemma payoutLoop_eq:
  "payoutLoop env T F (ps, r) sales =
     (ps @ map (payoutOf env T F) (filter (\<lambda>e. registered env (fst e)) sales),
      r + sum_list (map subtotalOf (filter (\<lambda>e. registered env (fst e)) sales)) * (10 / 100))"
proof (induction sales arbitrary: ps r)
  case Nil
  then show ?case by simp
next
  case (Cons e rest)
  show ?case
    by (simp only: payoutLoop.simps payoutStep_eq Cons.IH split: if_splits)
       (simp add: algebra_simps)
qed

section \<open>The payout loop in closed form\<close>

lemma registered_not_proto: "registered env v \<Longrightarrow> v \<notin> set objectPrototypeKeys"
  by (auto simp: registered_def dest: findVendor_not_proto)

lemma calculateOrderSplit_eq:
  assumes "groupItems [] cart = Inr sales"
  shows "calculateOrderSplit env cart =
     Inr \<lparr>totalAmount = cartTotal cart,
          platformRevenue =
            sum_list (map subtotalOf (filter (\<lambda>e. registered env (fst e)) sales)) * (10 / 100),
          totalPaystackFee = cartTotal cart * (15 / 1000) + 100,
          vendorPayouts =
            map (payoutOf env (cartTotal cart) (cartTotal cart * (15 / 1000) + 100))
              (filter (\<lambda>e. registered env (fst e)) sales)\<rparr>"
  using assms by (simp add: calculateOrderSplit_def Let_def payoutLoop_eq)

lemma payoutOf_totalSales: "totalSales (payoutOf env T F e) = subtotalOf e"
  by (cases e) (simp add: subtotalOf_def)

lemma payoutOf_vendorId: "vendorId (payoutOf env T F e) = fst e"
  by (cases e) simp

lemma payoutOf_vendorPayout:
  "T \<noteq> 0 \<Longrightarrow> vendorPayout (payoutOf env T F e)
     = Num (subtotalOf e * (9 / 10) - subtotalOf e / T * F)"
  by (cases e) (simp add: subtotalOf_def js_div_def)

lemma payoutOf_zero_total:
  "paystackFeeShare (payoutOf env 0 F e) = NotFinite \<and> vendorPayout (payoutOf env 0 F e) = NotFinite"
  by (cases e) (simp add: js_div_def)

lemma js_sum_payouts:
  assumes "T \<noteq> 0"
  shows "js_sum (map vendorPayout (map (payoutOf env T F) sales))
     = Num (sum_list (map subtotalOf sales) * (9 / 10) - sum_list (map subtotalOf sales) / T * F)"
proof (induction sales)
  case Nil
  then show ?case by simp
next
  case (Cons e rest)
  have "js_sum (map vendorPayout (map (payoutOf env T F) (e # rest)))
      = js_add (vendorPayout (payoutOf env T F e))
          (js_sum (map vendorPayout (map (payoutOf env T F) rest)))"
    by (simp only: list.map js_sum.simps)
  also have "\<dots> = js_add (Num (subtotalOf e * (9 / 10) - subtotalOf e / T * F))
      (Num (sum_list (map subtotalOf rest) * (9 / 10) - sum_list (map subtotalOf rest) / T * F))"
    by (simp only: Cons.IH payoutOf_vendorPayout[OF assms])
  also have "\<dots> = Num (sum_list (map subtotalOf (e # rest)) * (9 / 10)
      - sum_list (map subtotalOf (e # rest)) / T * F)"
    by (simp add: algebra_simps add_divide_distrib)
  finally show ?case .
qed

lemma filter_all: "\<forall>x \<in> set xs. P x \<Longrightarrow> filter P xs = xs"
  by (induction xs) auto


section \<open>Evaluation on the example carts, rounding\<close>

lemmas cart_defs = cart3_def strayCart_def freeCart_def freshApples_def carrots_def
  chickenBreast_def strayProduct_def

lemmas split_defs = calculateOrderSplit_def cartTotal_def groupItem_def objectPrototypeKeys_def
  findVendor_def vendors_def js_div_def Let_def

lemma ev_empty: "calculateOrderSplit Map.empty [] =
   Inr \<lparr>totalAmount = 0, platformRevenue = 0, totalPaystackFee = 100, vendorPayouts = []\<rparr>"
  by (simp add: split_defs)

lemma ev_stray: "calculateOrderSplit Map.empty strayCart =
   Inr \<lparr>totalAmount = 2200, platformRevenue = 120, totalPaystackFee = 133,
        vendorPayouts = [\<lparr>vendorId = ''VENDOR_001'', vendorName = ''Fresh Farms'',
           totalSales = 1200, platformFee = 120, paystackFeeShare = Num (798 / 11),
           vendorPayout = Num (11082 / 11), items = [\<lparr>product = freshApples, quantity = 1\<rparr>]\<rparr>]\<rparr>"
  by (simp add: split_defs cart_defs)

lemma ev_free: "calculateOrderSplit Map.empty freeCart =
   Inr \<lparr>totalAmount = 0, platformRevenue = 0, totalPaystackFee = 100,
        vendorPayouts = [\<lparr>vendorId = ''VENDOR_001'', vendorName = ''Fresh Farms'',
           totalSales = 0, platformFee = 0, paystackFeeShare = NotFinite,
           vendorPayout = NotFinite, items = [\<lparr>product = freshApples, quantity = 0\<rparr>]\<rparr>]\<rparr>"
  by (simp add: split_defs cart_defs)

lemma reg3: "registered Map.empty ''VENDOR_001''" "registered Map.empty ''VENDOR_002''" "registered Map.empty ''VENDOR_003''"
  by (simp_all add: registered_def findVendor_def vendors_def)

lemma vendorSubaccounts_shares:
  assumes "\<forall>p \<in> set ps. registered env (vendorId p)"
    and "map vendorPayout ps = map Num xs"
  shows "\<exists>subs. vendorSubaccounts env ps = Inr subs \<and>
            map share subs = map (\<lambda>x. Num \<lfloor>x * 100 + 1 / 2\<rfloor>) xs"
  using assms
proof (induction ps arbitrary: xs)
  case Nil
  then show ?case by simp
next
  case (Cons p rest)
  then obtain x xs' where xs: "xs = x # xs'" and px: "vendorPayout p = Num x"
    and r: "map vendorPayout rest = map Num xs'"
    by (cases xs) auto
  from Cons.prems(1) obtain v where v: "findVendor env (vendorId p) = Some v"
    by (auto simp: registered_def)
  from Cons.prems(1) have "\<forall>p \<in> set rest. registered env (vendorId p)" by simp
  from Cons.IH[OF this r] obtain subs where
    s: "vendorSubaccounts env rest = Inr subs" "map share subs = map (\<lambda>x. Num \<lfloor>x * 100 + 1 / 2\<rfloor>) xs'"
    by blast
  show ?case by (simp add: v s xs px)
qed

lemma shareSum_Num: "map share subs = map Num ks \<Longrightarrow> shareSum subs = Num (sum_list ks)"
proof (induction subs arbitrary: ks)
  case Nil
  then show ?case by simp
next
  case (Cons a subs)
  then obtain k ks' where "ks = k # ks'" "share a = Num k" "map share subs = map Num ks'"
    by (cases ks) auto
  with Cons.IH[of ks'] show ?case by simp
qed

lemma round_half_up_close: "\<bar>real_of_int \<lfloor>x + 1 / 2\<rfloor> - x\<bar> \<le> 1 / 2"
  by linarith

lemma rounded_sum_close:
  "\<bar>real_of_int (sum_list (map (\<lambda>x. \<lfloor>x + 1 / 2\<rfloor>) xs)) - sum_list xs\<bar> \<le> real (length xs) / 2"
proof (induction xs)
  case Nil
  then show ?case by simp
next
  case (Cons x xs)
  let ?f = "\<lambda>x::real. \<lfloor>x + 1 / 2\<rfloor>"
  have 1: "\<bar>real_of_int (?f x) - x\<bar> \<le> 1 / 2" by (rule round_half_up_close)
  have 2: "\<bar>real_of_int (sum_list (map ?f xs)) - sum_list xs\<bar> \<le> real (length xs) / 2"
    by (rule Cons.IH)
  have "real_of_int (sum_list (map ?f (x # xs))) - sum_list (x # xs)
      = (real_of_int (?f x) - x) + (real_of_int (sum_list (map ?f xs)) - sum_list xs)"
    by simp
  then have "\<bar>real_of_int (sum_list (map ?f (x # xs))) - sum_list (x # xs)\<bar>
      \<le> \<bar>real_of_int (?f x) - x\<bar> + \<bar>real_of_int (sum_list (map ?f xs)) - sum_list xs\<bar>"
    by (simp only: abs_triangle_ineq)
  also have "\<dots> \<le> 1 / 2 + real (length xs) / 2" using 1 2 by linarith
  also have "\<dots> = real (length (x # xs)) / 2" by simp
  finally show ?case .
qed

section \<open>C1: split conservation\<close>




section \<open>Shares of a gateway configuration\<close>

lemma vendorSubaccounts_general:
  "vendorSubaccounts env ps = Inr subs \<Longrightarrow>
   map share subs = map (\<lambda>p. Math_round (js_mul (vendorPayout p) 100)) ps"
  by (induction ps arbitrary: subs) (auto simp: Let_def split: option.splits sum.splits)

lemma generateSubaccounts_shares:
  "generateSubaccountsForSplit env s = Inr subs \<Longrightarrow>
   map share subs =
     map (\<lambda>p. Math_round (js_mul (vendorPayout p) 100)) (vendorPayouts s) @
     [Math_round (Num ((platformRevenue s + totalPaystackFee s) * 100))]"
  by (auto simp: generateSubaccountsForSplit_def Let_def vendorSubaccounts_general split: sum.splits)

lemma sum_payout_values:
  assumes "T \<noteq> 0"
  shows "map vendorPayout (map (payoutOf env T F) sales)
     = map Num (map (\<lambda>e. subtotalOf e * (9 / 10) - subtotalOf e / T * F) sales)"
  by (simp add: payoutOf_vendorPayout[OF assms])

lemma sum_list_payout_values:
  "sum_list (map (\<lambda>e. (subtotalOf e * (9 / 10) - subtotalOf e / T * F) * 100) sales)
     = (sum_list (map subtotalOf sales) * (9 / 10) - sum_list (map subtotalOf sales) / T * F) * 100"
  by (induction sales) (simp_all add: algebra_simps add_divide_distrib)

lemma ev_cart3: "calculateOrderSplit Map.empty cart3 =
   Inr \<lparr>totalAmount = 4500, platformRevenue = 450, totalPaystackFee = 335 / 2,
        vendorPayouts =
          [\<lparr>vendorId = ''VENDOR_001'', vendorName = ''Fresh Farms'', totalSales = 1200,
            platformFee = 120, paystackFeeShare = Num (134 / 3), vendorPayout = Num (3106 / 3),
            items = [\<lparr>product = freshApples, quantity = 1\<rparr>]\<rparr>,
           \<lparr>vendorId = ''VENDOR_002'', vendorName = ''Vegetable King'', totalSales = 800,
            platformFee = 80, paystackFeeShare = Num (268 / 9), vendorPayout = Num (6212 / 9),
            items = [\<lparr>product = carrots, quantity = 1\<rparr>]\<rparr>,
           \<lparr>vendorId = ''VENDOR_003'', vendorName = ''Meat Masters'', totalSales = 2500,
            platformFee = 250, paystackFeeShare = Num (1675 / 18),
            vendorPayout = Num (38825 / 18),
            items = [\<lparr>product = chickenBreast, quantity = 1\<rparr>]\<rparr>]\<rparr>"
  by (simp add: split_defs cart_defs)

lemma floor1: "\<lfloor>(310600::real) / 3 + 1 / 2\<rfloor> = 103533" by linarith
lemma floor2: "\<lfloor>(621200::real) / 9 + 1 / 2\<rfloor> = 69022" by linarith
lemma floor3: "\<lfloor>(3882500::real) / 18 + 1 / 2\<rfloor> = 215694" by linarith
lemma floor4: "\<lfloor>(61750::real) + 1 / 2\<rfloor> = 61750" by linarith

lemma ev_cart3_isr:
  "\<not> isl (generateSubaccountsForSplit Map.empty (projr (calculateOrderSplit Map.empty cart3)))"
  by (simp add: ev_cart3 generateSubaccountsForSplit_def findVendor_def vendors_def Let_def)

lemma ev_cart3_subs:
 "map share (projr (generateSubaccountsForSplit Map.empty (projr (calculateOrderSplit Map.empty cart3))))
   = [Num 103533, Num 69022, Num 215694, Num 61750]"
  by (simp add: ev_cart3 generateSubaccountsForSplit_def findVendor_def vendors_def Let_def
      floor1 floor2 floor3 floor4)

lemma not_proto:
  "''VENDOR_001'' \<notin> set objectPrototypeKeys" "''VENDOR_999'' \<notin> set objectPrototypeKeys"
  by (simp_all add: objectPrototypeKeys_def)


section \<open>C4: gateway split configuration\<close>





section \<open>C5: empty and zero-total carts\<close>

text \<open>
  C5, as stated, fails on the code: \<open>calculateOrderSplit\<close> has no validation and no
  \<open>InvalidCart\<close> error. The empty cart returns a split with a fee of 100 and no payouts;
  a cart of zero apples (total 0) returns a split as well.
\<close>

theorem invalid_cart_not_rejected_counterexample:
  "calculateOrderSplit Map.empty [] =
     Inr \<lparr>totalAmount = 0, platformRevenue = 0, totalPaystackFee = 100, vendorPayouts = []\<rparr> \<and>
   cartTotal freeCart = 0 \<and>
   \<not> isl (calculateOrderSplit Map.empty freeCart)"
  by (simp add: ev_empty ev_free) (simp add: cart_defs cartTotal_def)

text \<open>
  C5 (amended): for every cart whose order total is zero, the empty cart included, and
  none of whose vendor ids is a property name inherited from \<open>Object.prototype\<close>,
  \<open>calculateOrderSplit\<close> returns an \<open>OrderSplit\<close>: \<open>totalAmount\<close> is 0, \<open>totalPaystackFee\<close>
  is 100, every payout has a non-finite \<open>paystackFeeShare\<close> and \<open>vendorPayout\<close>, and for
  the empty cart there is no payout and \<open>platformRevenue\<close> is 0.
\<close>

theorem zero_total_cart_returns_split:
  assumes z: "cartTotal cartItems = 0"
    and np: "\<forall>item \<in> set cartItems. vendor (product item) \<notin> set objectPrototypeKeys"
  shows "\<exists>s. calculateOrderSplit env cartItems = Inr s \<and> totalAmount s = 0 \<and>
             totalPaystackFee s = 100 \<and>
             list_all (\<lambda>p. paystackFeeShare p = NotFinite \<and> vendorPayout p = NotFinite)
               (vendorPayouts s) \<and>
             (cartItems = [] \<longrightarrow> vendorPayouts s = [] \<and> platformRevenue s = 0)"
proof -
  from np obtain sales where g: "groupItems [] cartItems = Inr sales"
    using groupItems_ok by blast
  have e: "cartItems = [] \<Longrightarrow> sales = []" using g by simp
  show ?thesis
    using calculateOrderSplit_eq[OF g, of env] e
    by (auto simp: z list_all_iff payoutOf_zero_total)
qed


text \<open>C5, witness: the cart of zero apples and the empty cart.\<close>

theorem zero_total_cart_returns_split_witness:
  "cartTotal freeCart = 0 \<and>
   (\<exists>s. calculateOrderSplit Map.empty freeCart = Inr s \<and> totalAmount s = 0 \<and>
        totalPaystackFee s = 100 \<and>
        list_all (\<lambda>p. paystackFeeShare p = NotFinite \<and> vendorPayout p = NotFinite)
          (vendorPayouts s)) \<and>
   (\<exists>s. calculateOrderSplit Map.empty [] = Inr s \<and> totalAmount s = 0 \<and>
        totalPaystackFee s = 100 \<and> vendorPayouts s = [] \<and> platformRevenue s = 0)"
proof -
  have h1: "cartTotal freeCart = 0" by (simp add: cart_defs cartTotal_def)
  have h2: "\<forall>item \<in> set freeCart. vendor (product item) \<notin> set objectPrototypeKeys"
    by (simp add: cart_defs not_proto)
  have e1: "cartTotal [] = 0" by (simp add: cartTotal_def)
  have e2: "\<forall>item \<in> set []. vendor (product item) \<notin> set objectPrototypeKeys" by simp
  from zero_total_cart_returns_split[OF h1 h2, of Map.empty]
    zero_total_cart_returns_split[OF e1 e2, of Map.empty] h1
  show ?thesis by auto
qed

section \<open>C6: lines of unregistered vendors\<close>

text \<open>
  C6, as stated, fails on the code: a vendor that the registry does not know is skipped
  (\<open>if (!vendor) return;\<close>), no error is raised. The cart of one pack of apples (1200) and
  two jars of honey of the unregistered \<open>VENDOR_999\<close> (1000) returns a split whose
  \<open>totalAmount\<close> is 2200 and whose only payout is that of \<open>VENDOR_001\<close>.
\<close>

theorem unknown_vendor_partial_result_counterexample:
  "\<not> registered Map.empty (vendor strayProduct) \<and>
   calculateOrderSplit Map.empty strayCart =
     Inr \<lparr>totalAmount = 2200, platformRevenue = 120, totalPaystackFee = 133,
          vendorPayouts =
            [\<lparr>vendorId = ''VENDOR_001'', vendorName = ''Fresh Farms'', totalSales = 1200,
              platformFee = 120, paystackFeeShare = Num (798 / 11),
              vendorPayout = Num (11082 / 11),
              items = [\<lparr>product = freshApples, quantity = 1\<rparr>]\<rparr>]\<rparr>"
  by (simp add: ev_stray) (simp add: strayProduct_def registered_def findVendor_def vendors_def)

text \<open>
  C6 (amended): for every cart with a line whose vendor id is absent from the registry
  (and no vendor id that is a property name inherited from \<open>Object.prototype\<close>),
  \<open>calculateOrderSplit\<close> raises no error and returns a partial \<open>OrderSplit\<close>:
  \<open>totalAmount\<close> counts every line, \<open>vendorPayouts\<close> holds one payout for each registered
  vendor of the cart and none for the others, and the payouts' \<open>totalSales\<close> add up to
  the lines of the registered vendors only.
\<close>

theorem unknown_vendor_skipped:
  assumes unk: "\<exists>item \<in> set cartItems. \<not> registered env (vendor (product item))"
    and np: "\<forall>item \<in> set cartItems. vendor (product item) \<notin> set objectPrototypeKeys"
  shows "\<exists>s. calculateOrderSplit env cartItems = Inr s \<and>
             totalAmount s = sum_list (map lineTotal cartItems) \<and>
             distinct (map vendorId (vendorPayouts s)) \<and>
             set (map vendorId (vendorPayouts s)) =
               {v \<in> (\<lambda>item. vendor (product item)) ` set cartItems. registered env v} \<and>
             sum_list (map totalSales (vendorPayouts s)) =
               sum_list (map lineTotal
                 (filter (\<lambda>item. registered env (vendor (product item))) cartItems)) \<and>
             (\<exists>item \<in> set cartItems.
                \<not> registered env (vendor (product item)) \<and>
                vendor (product item) \<notin> set (map vendorId (vendorPayouts s)))"
proof -
  from np obtain sales where g: "groupItems [] cartItems = Inr sales"
    using groupItems_ok by blast
  let ?reg = "filter (\<lambda>e. registered env (fst e)) sales"
  let ?T = "cartTotal cartItems"
  let ?ps = "map (payoutOf env ?T (?T * (15 / 1000) + 100)) ?reg"
  from groupItems_keys[OF g] have d: "distinct (map fst sales)"
    and k: "set (map fst sales) = (\<lambda>item. vendor (product item)) ` set cartItems"
    by simp_all
  have ids: "map vendorId ?ps = map fst ?reg"
    by (simp add: payoutOf_vendorId)
  have 1: "distinct (map vendorId ?ps)"
    unfolding ids using d by (rule distinct_map_filter)
  have "set (map fst ?reg) = {v \<in> set (map fst sales). registered env v}"
    by auto
  then have 2: "set (map vendorId ?ps) =
      {v \<in> (\<lambda>item. vendor (product item)) ` set cartItems. registered env v}"
    unfolding ids k .
  have m: "map totalSales ?ps = map subtotalOf ?reg"
    by (simp add: payoutOf_totalSales)
  have 3: "sum_list (map totalSales ?ps) =
      sum_list (map lineTotal (filter (\<lambda>item. registered env (vendor (product item))) cartItems))"
    unfolding m using groupItems_sum[OF g, of "registered env"] by simp
  let ?s = "\<lparr>totalAmount = ?T,
      platformRevenue = sum_list (map subtotalOf ?reg) * (10 / 100),
      totalPaystackFee = ?T * (15 / 1000) + 100, vendorPayouts = ?ps\<rparr>"
  have p: "vendorPayouts ?s = ?ps" by simp
  show ?thesis
  proof (intro exI[of _ ?s] conjI)
    show "calculateOrderSplit env cartItems = Inr ?s"
      by (rule calculateOrderSplit_eq[OF g])
    show "totalAmount ?s = sum_list (map lineTotal cartItems)"
      by (simp add: cartTotal_sum)
    show "distinct (map vendorId (vendorPayouts ?s))"
      unfolding p by (rule 1)
    show "set (map vendorId (vendorPayouts ?s)) =
        {v \<in> (\<lambda>item. vendor (product item)) ` set cartItems. registered env v}"
      unfolding p by (rule 2)
    show "sum_list (map totalSales (vendorPayouts ?s)) =
        sum_list (map lineTotal
          (filter (\<lambda>item. registered env (vendor (product item))) cartItems))"
      unfolding p by (rule 3)
    show "\<exists>item \<in> set cartItems.
        \<not> registered env (vendor (product item)) \<and>
        vendor (product item) \<notin> set (map vendorId (vendorPayouts ?s))"
      unfolding p 2 using unk by blast
  qed
qed


text \<open>C6, witness: the cart of apples and honey.\<close>

theorem unknown_vendor_skipped_witness:
  "\<not> registered Map.empty ''VENDOR_999'' \<and>
   (\<exists>s. calculateOrderSplit Map.empty strayCart = Inr s \<and> totalAmount s = 2200 \<and>
        map vendorId (vendorPayouts s) = [''VENDOR_001''] \<and>
        sum_list (map totalSales (vendorPayouts s)) = 1200)"
proof -
  have u: "\<not> registered Map.empty ''VENDOR_999''"
    by (simp add: registered_def findVendor_def vendors_def)
  then have h1: "\<exists>item \<in> set strayCart. \<not> registered Map.empty (vendor (product item))"
    by (simp add: cart_defs)
  have h2: "\<forall>item \<in> set strayCart. vendor (product item) \<notin> set objectPrototypeKeys"
    by (simp add: cart_defs not_proto)
  from unknown_vendor_skipped[OF h1 h2] obtain s where
    "calculateOrderSplit Map.empty strayCart = Inr s" by blast
  with u show ?thesis by (auto simp: ev_stray)
qed

section \<open>The order store: finding and updating\<close>

lemma length_updateFound: "length (updateFound p f xs) = length xs"
  by (induction xs) auto

lemma updateFound_absent: "find p xs = None \<Longrightarrow> updateFound p f xs = xs"
  by (induction xs) (auto split: if_splits)

lemma find_updateFound:
  "(\<And>x. p x \<Longrightarrow> p (f x)) \<Longrightarrow> find p (updateFound p f xs) = map_option f (find p xs)"
  by (induction xs) auto

lemma updateFound_append:
  "updateFound p f (xs @ ys) =
     (if find p xs = None then xs @ updateFound p f ys else updateFound p f xs @ ys)"
  by (induction xs) auto

lemma find_append_first: "find p xs \<noteq> None \<Longrightarrow> find p (xs @ ys) = find p xs"
  by (induction xs) auto

lemma updateFound_nth_other:
  "k < length xs \<Longrightarrow> \<not> p (xs ! k) \<Longrightarrow> updateFound p f xs ! k = xs ! k"
proof (induction xs arbitrary: k)
  case Nil
  then show ?case by simp
next
  case (Cons x xs)
  then show ?case by (cases k) auto
qed

lemma updateFound_keeps_reference:
  assumes "\<And>x. orderReference (f x) = orderReference x"
  shows "map orderReference (updateFound p f xs) = map orderReference xs"
  by (induction xs) (auto simp: assms)

lemma updateFound_nth_shadowed:
  assumes "i < length xs" "j < i" "orderReference (xs ! j) = orderReference (xs ! i)"
  shows "updateFound (\<lambda>x. orderReference x = r) f xs ! i = xs ! i"
  using assms
proof (induction xs arbitrary: i j)
  case Nil
  then show ?case by simp
next
  case (Cons x xs)
  from Cons.prems obtain i' where i: "i = Suc i'" by (cases i) auto
  show ?case
  proof (cases "orderReference x = r")
    case True
    then show ?thesis by (simp add: i)
  next
    case False
    show ?thesis
    proof (cases j)
      case 0
      with Cons.prems False have "orderReference (xs ! i') \<noteq> r" by (simp add: i)
      with Cons.prems False show ?thesis
        by (simp add: i updateFound_nth_other)
    next
      case (Suc j')
      with Cons.prems have "i' < length xs" "j' < i'" "orderReference (xs ! j') = orderReference (xs ! i')"
        by (simp_all add: i)
      from Cons.IH[OF this] False show ?thesis by (simp add: i)
    qed
  qed
qed

lemma applyPayment_reference [simp]:
  "orderReference (applyPayment status paymentData nowISO order) = orderReference order"
  by (simp add: applyPayment_def Let_def)

lemma getOrder_after_payment:
  "getOrderByReference (updateOrderPaymentStatus orders ref status paymentData nowISO) ref
     = map_option (applyPayment status paymentData nowISO) (getOrderByReference orders ref)"
  unfolding getOrderByReference_def updateOrderPaymentStatus_def
  by (rule find_updateFound) simp

lemma getOrder_after_delivery:
  "getOrderByReference (completeOrderDelivery orders ref nowISO) ref
     = map_option (\<lambda>order. order\<lparr>deliveredAt := Some nowISO, paymentStatus := delivered\<rparr>)
         (getOrderByReference orders ref)"
  unfolding getOrderByReference_def completeOrderDelivery_def
  by (rule find_updateFound) simp

lemma applyPayment_twice:
  "applyPayment paid ev now2 (applyPayment paid ev now1 order)
     = (applyPayment paid ev now1 order)\<lparr>paidAt := Some now2\<rparr>"
  by (simp add: applyPayment_def Let_def)


lemmas order_defs = orderA_def orderB_def dataA_def chargeA_def bareCharge_def

lemmas store_defs = updateOrderPaymentStatus_def completeOrderDelivery_def
  updateOrderDeliveryStatus_def getOrderByReference_def applyPayment_def createOrder_def
  Let_def


section \<open>Orders that an earlier order shadows\<close>

lemma shadowedAt_updateFound:
  assumes keep: "\<And>x. orderReference (f x) = orderReference x"
    and sh: "shadowedAt orders i new"
  shows "shadowedAt (updateFound (\<lambda>x. orderReference x = r) f orders) i new"
proof -
  let ?u = "updateFound (\<lambda>x. orderReference x = r) f orders"
  from sh obtain j where i: "i < length orders" and n: "orders ! i = new"
    and j: "j < i" and rj: "orderReference (orders ! j) = orderReference new"
    by (auto simp: shadowedAt_def)
  have "map orderReference ?u = map orderReference orders"
    by (rule updateFound_keeps_reference) (rule keep)
  then have "map orderReference ?u ! j = map orderReference orders ! j"
    by simp
  then have 1: "orderReference (?u ! j) = orderReference (orders ! j)"
    using i j by (simp add: length_updateFound)
  have 2: "?u ! i = orders ! i"
    using i j rj n by (simp add: updateFound_nth_shadowed[of i _ j])
  show ?thesis
    unfolding shadowedAt_def
  proof (intro conjI)
    show "i < length ?u" using i by (simp add: length_updateFound)
    show "?u ! i = new" using 2 n by simp
    show "\<exists>j<i. orderReference (?u ! j) = orderReference new"
      using j 1 rj by auto
  qed
qed

lemma shadowedAt_append:
  assumes "shadowedAt orders i new"
  shows "shadowedAt (orders @ ys) i new"
proof -
  from assms obtain j where i: "i < length orders" and n: "orders ! i = new"
    and j: "j < i" and rj: "orderReference (orders ! j) = orderReference new"
    by (auto simp: shadowedAt_def)
  from i j have jl: "j < length orders" by simp
  show ?thesis
    unfolding shadowedAt_def
  proof (intro conjI)
    show "i < length (orders @ ys)" using i by simp
    show "(orders @ ys) ! i = new" using i n by (simp add: nth_append_left)
    have "orderReference ((orders @ ys) ! j) = orderReference new"
      using jl rj by (simp add: nth_append_left)
    with j show "\<exists>j<i. orderReference ((orders @ ys) ! j) = orderReference new"
      by blast
  qed
qed

lemma shadowedAt_handleChargeSuccess:
  assumes "shadowedAt orders i new"
  shows "shadowedAt (snd (handleChargeSuccess orders paymentData nowISO)) i new"
proof (cases "resolveOrder orders paymentData")
  case (Pair ref found)
  show ?thesis
  proof (cases found)
    case None
    with Pair have "snd (handleChargeSuccess orders paymentData nowISO) = orders"
      by (simp add: handleChargeSuccess_def)
    with assms show ?thesis by (simp only:)
  next
    case (Some existingOrder)
    with Pair have "snd (handleChargeSuccess orders paymentData nowISO) =
        updateFound (\<lambda>x. orderReference x = the ref)
          (applyPayment paid
             (Some (paymentData\<lparr>pd_orderReference := ref,
                                transactionReference := reference paymentData\<rparr>)) nowISO)
          orders"
      by (simp add: handleChargeSuccess_def updateOrderPaymentStatus_def)
    moreover have "shadowedAt
        (updateFound (\<lambda>x. orderReference x = the ref)
          (applyPayment paid
             (Some (paymentData\<lparr>pd_orderReference := ref,
                                transactionReference := reference paymentData\<rparr>)) nowISO)
          orders) i new"
      by (rule shadowedAt_updateFound[OF _ assms]) (rule applyPayment_reference)
    ultimately show ?thesis by (simp only:)
  qed
qed

lemma shadowedAt_perform:
  assumes "shadowedAt orders i new"
  shows "shadowedAt (perform orders op) i new"
proof (cases op)
  case (CreateOrder orderData dateNow nowISO)
  have "\<exists>x. perform orders op = orders @ [x]"
    by (simp add: CreateOrder createOrder_def Let_def)
  then obtain x where "perform orders op = orders @ [x]" ..
  with shadowedAt_append[OF assms, of "[x]"] show ?thesis by (simp only:)
next
  case (UpdateOrderPaymentStatus ref status paymentData nowISO)
  show ?thesis
    unfolding UpdateOrderPaymentStatus perform.simps updateOrderPaymentStatus_def
    by (rule shadowedAt_updateFound[OF _ assms]) (rule applyPayment_reference)
next
  case (UpdateOrderDeliveryStatus ref rider terminal)
  show ?thesis
    unfolding UpdateOrderDeliveryStatus perform.simps updateOrderDeliveryStatus_def
    by (rule shadowedAt_updateFound[OF _ assms]) simp
next
  case (CompleteOrderDelivery ref nowISO)
  show ?thesis
    unfolding CompleteOrderDelivery perform.simps completeOrderDelivery_def
    by (rule shadowedAt_updateFound[OF _ assms]) simp
next
  case (HandleChargeSuccess paymentData nowISO)
  show ?thesis
    unfolding HandleChargeSuccess perform.simps
    by (rule shadowedAt_handleChargeSuccess[OF assms])
qed

lemma shadowedAt_performAll:
  "shadowedAt orders i new \<Longrightarrow> shadowedAt (performAll orders ops) i new"
proof (induction ops arbitrary: orders)
  case Nil
  then show ?case by simp
next
  case (Cons op ops)
  from Cons.IH[OF shadowedAt_perform[OF Cons.prems, of op]] show ?case by simp
qed

lemma find_first_index:
  "find p xs = Some x \<Longrightarrow> \<exists>i<length xs. xs ! i = x \<and> p x \<and> (\<forall>j<i. \<not> p (xs ! j))"
  by (auto simp: find_Some_iff)


section \<open>C2: a payment applied twice\<close>

text \<open>
  C2, as stated, fails on the code: \<open>paidAt\<close> is written whenever the new status is
  \<open>paid\<close>. Order A is paid by a charge at 10:05:00; the same charge applied again at
  10:09:30 leaves \<open>paidAt\<close> at 10:09:30.
\<close>

theorem repeated_payment_paidAt_counterexample:
  "map_option paidAt
     (getOrderByReference
        (updateOrderPaymentStatus [orderA] ''ORDER_A'' paid (Some chargeA)
           ''2025-01-01T10:05:00.000Z'') ''ORDER_A'')
     = Some (Some ''2025-01-01T10:05:00.000Z'') \<and>
   map_option paidAt
     (getOrderByReference
        (updateOrderPaymentStatus
           (updateOrderPaymentStatus [orderA] ''ORDER_A'' paid (Some chargeA)
              ''2025-01-01T10:05:00.000Z'')
           ''ORDER_A'' paid (Some chargeA) ''2025-01-01T10:09:30.000Z'') ''ORDER_A'')
     = Some (Some ''2025-01-01T10:09:30.000Z'')"
  by (simp add: store_defs order_defs)

text \<open>
  C2 (amended): for every stored order that a successful-payment event has put in status
  \<open>paid\<close>, applying the same event a second time through \<open>updateOrderPaymentStatus\<close>
  leaves \<open>paymentStatus\<close>, \<open>paymentReference\<close> and every other field unchanged, except
  \<open>paidAt\<close>, which is overwritten with the time of the second application.
\<close>

theorem repeated_payment_overwrites_paidAt:
  assumes "getOrderByReference (updateOrderPaymentStatus orders ref paid ev now1) ref = Some o1"
  shows "paymentStatus o1 = paid \<and> paidAt o1 = Some now1 \<and>
         getOrderByReference
           (updateOrderPaymentStatus (updateOrderPaymentStatus orders ref paid ev now1)
              ref paid ev now2) ref
           = Some (o1\<lparr>paidAt := Some now2\<rparr>)"
proof -
  from assms obtain order where o1: "o1 = applyPayment paid ev now1 order"
    by (auto simp: getOrder_after_payment)
  have "paymentStatus o1 = paid" "paidAt o1 = Some now1"
    by (simp_all add: o1 applyPayment_def Let_def)
  moreover have "getOrderByReference
      (updateOrderPaymentStatus (updateOrderPaymentStatus orders ref paid ev now1)
         ref paid ev now2) ref = Some (o1\<lparr>paidAt := Some now2\<rparr>)"
    using assms by (simp add: getOrder_after_payment[of "updateOrderPaymentStatus orders ref paid ev now1"] o1 applyPayment_twice)
  ultimately show ?thesis by simp
qed

text \<open>C2, witness: order A and its charge, applied at 10:05:00 and at 10:09:30.\<close>

theorem repeated_payment_overwrites_paidAt_witness:
  "getOrderByReference
     (updateOrderPaymentStatus [orderA] ''ORDER_A'' paid (Some chargeA)
        ''2025-01-01T10:05:00.000Z'') ''ORDER_A''
     = Some (applyPayment paid (Some chargeA) ''2025-01-01T10:05:00.000Z'' orderA) \<and>
   getOrderByReference
     (updateOrderPaymentStatus
        (updateOrderPaymentStatus [orderA] ''ORDER_A'' paid (Some chargeA)
           ''2025-01-01T10:05:00.000Z'')
        ''ORDER_A'' paid (Some chargeA) ''2025-01-01T10:09:30.000Z'') ''ORDER_A''
     = Some ((applyPayment paid (Some chargeA) ''2025-01-01T10:05:00.000Z'' orderA)
               \<lparr>paidAt := Some ''2025-01-01T10:09:30.000Z''\<rparr>)"
proof -
  have h: "getOrderByReference
     (updateOrderPaymentStatus [orderA] ''ORDER_A'' paid (Some chargeA)
        ''2025-01-01T10:05:00.000Z'') ''ORDER_A''
     = Some (applyPayment paid (Some chargeA) ''2025-01-01T10:05:00.000Z'' orderA)"
    by (simp add: updateOrderPaymentStatus_def getOrderByReference_def orderA_def)
  from repeated_payment_overwrites_paidAt[OF h] h show ?thesis by simp
qed

section \<open>C3: status transitions\<close>

text \<open>
  C3, as stated, fails on the code: no transition is validated. An order that was placed,
  paid and delivered is moved back to \<open>pending\<close>, and a failed order to \<open>paid\<close>, by
  \<open>updateOrderPaymentStatus\<close>.
\<close>

theorem terminal_status_reopened_counterexample:
  "map_option paymentStatus
     (getOrderByReference (performAll [] life) ''ORDER_A'') = Some delivered \<and>
   map_option paymentStatus
     (getOrderByReference
        (performAll [] (life @ [UpdateOrderPaymentStatus ''ORDER_A'' pending None
           ''2025-01-01T12:00:00.000Z'']))
        ''ORDER_A'') = Some pending \<and>
   map_option paymentStatus
     (getOrderByReference
        (performAll [orderA\<lparr>paymentStatus := failed\<rparr>]
           [UpdateOrderPaymentStatus ''ORDER_A'' paid (Some chargeA)
              ''2025-01-01T12:00:00.000Z''])
        ''ORDER_A'') = Some paid"
  by (simp add: life_def store_defs order_defs)

text \<open>
  C3 (amended): \<open>updateOrderPaymentStatus\<close> rejects no transition: for every stored order
  and every requested status, the order found under the reference has the requested
  status afterwards, whatever its status was before (\<open>delivered\<close> and \<open>failed\<close>
  included).
\<close>

theorem payment_status_set_unconditionally:
  assumes "getOrderByReference orders ref = Some order"
  shows "\<exists>order'. getOrderByReference
            (updateOrderPaymentStatus orders ref status paymentData nowISO) ref = Some order' \<and>
          paymentStatus order' = status"
  using assms by (auto simp: getOrder_after_payment applyPayment_def Let_def)

text \<open>C3, witness: a delivered order A is set to \<open>pending\<close>.\<close>

theorem payment_status_set_unconditionally_witness:
 "getOrderByReference [orderA\<lparr>paymentStatus := delivered\<rparr>] ''ORDER_A''
     = Some (orderA\<lparr>paymentStatus := delivered\<rparr>) \<and>
  (\<exists>order'. getOrderByReference
            (updateOrderPaymentStatus [orderA\<lparr>paymentStatus := delivered\<rparr>] ''ORDER_A'' pending None ''2025-01-01T12:00:00.000Z'') ''ORDER_A'' = Some order' \<and>
          paymentStatus order' = pending)"
proof -
  have h: "getOrderByReference [orderA\<lparr>paymentStatus := delivered\<rparr>] ''ORDER_A''
     = Some (orderA\<lparr>paymentStatus := delivered\<rparr>)"
    by (simp add: getOrderByReference_def orderA_def)
  from payment_status_set_unconditionally[OF h] h show ?thesis by simp
qed

section \<open>C7: the payment reference\<close>

text \<open>
  C7, as stated, fails on the code: an order whose \<open>paymentReference\<close> is \<open>T_1001\<close>
  receives an update that carries the reference \<open>T_2002\<close>, and its \<open>paymentReference\<close>
  is \<open>T_2002\<close> afterwards.
\<close>

theorem payment_reference_replaced_counterexample:
  "map_option paymentReference
     (getOrderByReference [orderA\<lparr>paymentStatus := paid, paymentReference := Some ''T_1001''\<rparr>]
        ''ORDER_A'') = Some (Some ''T_1001'') \<and>
   map_option paymentReference
     (getOrderByReference
        (updateOrderPaymentStatus
           [orderA\<lparr>paymentStatus := paid, paymentReference := Some ''T_1001''\<rparr>] ''ORDER_A'' paid
           (Some (chargeA\<lparr>reference := Some ''T_2002''\<rparr>)) ''2025-01-01T10:09:30.000Z'')
        ''ORDER_A'') = Some (Some ''T_2002'')"
  by (simp add: store_defs order_defs)

text \<open>
  C7 (amended): after \<open>updateOrderPaymentStatus\<close> the order found under the reference has
  as \<open>paymentReference\<close> the \<open>reference\<close> of \<open>paymentData\<close> whenever the call carries one
  that is present and not empty, also when a different reference was stored before; the
  stored reference is kept only when the call carries none.
\<close>

theorem payment_reference_overwritten_when_present:
  assumes "getOrderByReference orders ref = Some order"
  shows "\<exists>order'. getOrderByReference
            (updateOrderPaymentStatus orders ref status paymentData nowISO) ref = Some order' \<and>
          paymentReference order' =
            (case paymentData of
               None \<Rightarrow> paymentReference order
             | Some d \<Rightarrow> if truthy (reference d) then reference d else paymentReference order)"
  using assms by (auto simp: getOrder_after_payment applyPayment_def Let_def split: option.splits)

text \<open>
  C7, witness: order A with the stored reference \<open>T_1001\<close>, updated with the reference
  \<open>T_2002\<close> and updated without payment data.
\<close>

theorem payment_reference_overwritten_when_present_witness:
  "getOrderByReference [orderA\<lparr>paymentReference := Some ''T_1001''\<rparr>] ''ORDER_A''
     = Some (orderA\<lparr>paymentReference := Some ''T_1001''\<rparr>) \<and>
   (\<exists>order'. getOrderByReference
      (updateOrderPaymentStatus [orderA\<lparr>paymentReference := Some ''T_1001''\<rparr>] ''ORDER_A'' paid
         (Some (chargeA\<lparr>reference := Some ''T_2002''\<rparr>)) ''2025-01-01T10:09:30.000Z'')
      ''ORDER_A'' = Some order' \<and> paymentReference order' = Some ''T_2002'') \<and>
   (\<exists>order'. getOrderByReference
      (updateOrderPaymentStatus [orderA\<lparr>paymentReference := Some ''T_1001''\<rparr>] ''ORDER_A'' pending
         None ''2025-01-01T10:09:30.000Z'')
      ''ORDER_A'' = Some order' \<and> paymentReference order' = Some ''T_1001'')"
proof -
  have h: "getOrderByReference [orderA\<lparr>paymentReference := Some ''T_1001''\<rparr>] ''ORDER_A''
     = Some (orderA\<lparr>paymentReference := Some ''T_1001''\<rparr>)"
    by (simp add: getOrderByReference_def orderA_def)
  from payment_reference_overwritten_when_present[OF h, of paid "Some (chargeA\<lparr>reference := Some ''T_2002''\<rparr>)" "''2025-01-01T10:09:30.000Z''"]
    payment_reference_overwritten_when_present[OF h, of pending None "''2025-01-01T10:09:30.000Z''"]
    h
  show ?thesis by (simp add: chargeA_def)
qed


section \<open>C9: completing a delivery\<close>

text \<open>
  C9, as stated, fails on the code: \<open>completeOrderDelivery\<close> checks no status. Order A,
  still \<open>pending\<close>, is marked \<open>delivered\<close>.
\<close>

theorem delivery_from_pending_counterexample:
  "paymentStatus orderA = pending \<and>
   completeOrderDelivery [orderA] ''ORDER_A'' ''2025-01-01T11:00:00.000Z''
     = [orderA\<lparr>deliveredAt := Some ''2025-01-01T11:00:00.000Z'', paymentStatus := delivered\<rparr>]"
  by (simp add: store_defs order_defs)

text \<open>
  C9 (amended): \<open>completeOrderDelivery\<close> sets \<open>paymentStatus\<close> to \<open>delivered\<close> and
  \<open>deliveredAt\<close> to the current time on the order found under the reference, whatever
  its current status, and rejects nothing; when no order has the reference the store is
  left unchanged.
\<close>

theorem delivery_completed_from_any_status:
  "(getOrderByReference orders ref = Some order \<longrightarrow>
      getOrderByReference (completeOrderDelivery orders ref nowISO) ref
        = Some (order\<lparr>deliveredAt := Some nowISO, paymentStatus := delivered\<rparr>)) \<and>
   (getOrderByReference orders ref = None \<longrightarrow> completeOrderDelivery orders ref nowISO = orders)"
  by (simp add: getOrder_after_delivery)
     (simp add: getOrderByReference_def completeOrderDelivery_def updateFound_absent)

text \<open>C9, witness: order A is found and delivered; no order has the reference \<open>ORDER_Z\<close>.\<close>

theorem delivery_completed_from_any_status_witness:
  "getOrderByReference [orderA] ''ORDER_A'' = Some orderA \<and>
   getOrderByReference (completeOrderDelivery [orderA] ''ORDER_A'' ''2025-01-01T11:00:00.000Z'')
      ''ORDER_A''
     = Some (orderA\<lparr>deliveredAt := Some ''2025-01-01T11:00:00.000Z'', paymentStatus := delivered\<rparr>) \<and>
   getOrderByReference [orderA] ''ORDER_Z'' = None \<and>
   completeOrderDelivery [orderA] ''ORDER_Z'' ''2025-01-01T11:00:00.000Z'' = [orderA]"
proof -
  have h1: "getOrderByReference [orderA] ''ORDER_A'' = Some orderA"
    by (simp add: getOrderByReference_def orderA_def)
  have h2: "getOrderByReference [orderA] ''ORDER_Z'' = None"
    by (simp add: getOrderByReference_def orderA_def)
  from delivery_completed_from_any_status[of "[orderA]" "''ORDER_A''" orderA "''2025-01-01T11:00:00.000Z''"]
    delivery_completed_from_any_status[of "[orderA]" "''ORDER_Z''" orderA "''2025-01-01T11:00:00.000Z''"]
    h1 h2
  show ?thesis by simp
qed

section \<open>C10: two orders with one reference\<close>



section \<open>C8: charge notifications that resolve to no order\<close>

text \<open>
  When the metadata reference is absent or empty, no order's \<open>paymentReference\<close> equals
  the notification's \<open>reference\<close>, and the orders with the notification's email and
  amount are not exactly one, the notification is dropped and the store is unchanged.
  Here "equals" is the \<open>===\<close> of method 2, for which a notification without a
  \<open>reference\<close> equals an order without a \<open>paymentReference\<close>.
\<close>

lemma truthy_present: "truthy x \<Longrightarrow> x \<noteq> None"
  by (cases x) simp_all

lemma resolveOrder_reference:
  "resolveOrder orders paymentData = (ref, Some existingOrder) \<Longrightarrow> ref \<noteq> None"
  by (auto simp: resolveOrder_def method1_def method2_def method3_def Let_def
        dest: truthy_present split: if_splits option.splits list.splits)

lemma unresolved_when_nothing_matches:
  assumes "\<not> truthy (metadata_orderReference paymentData)"
    and "find (\<lambda>order. paymentReference order = reference paymentData) orders = None"
    and "length (filter (\<lambda>order. customerEmail order = the (customer_email paymentData) \<and>
                         (case pd_amount paymentData of
                            None \<Rightarrow> False
                          | Some a \<Rightarrow> amount order = a / 100)) orders) \<noteq> 1"
  shows "handleChargeSuccess orders paymentData nowISO = (Unresolved, orders)"
  using assms
  by (auto simp: handleChargeSuccess_def resolveOrder_def method1_def method2_def method3_def
       getAllOrders_def Let_def split: list.splits)

text \<open>
  C8: on the store of the two pending orders A and B (same email, same amount, no
  \<open>paymentReference\<close> yet), a charge notification without metadata reference and without
  gateway reference is not dropped. Method 2 compares the absent \<open>reference\<close> with the
  absent \<open>paymentReference\<close> of order A, takes order A as found, and order A is marked
  \<open>paid\<close>.
\<close>

theorem unreferenced_charge_marks_first_order_paid:
  "metadata_orderReference bareCharge = None \<and> reference bareCharge = None \<and>
   customer_email bareCharge = Some ''ada@example.com'' \<and>
   pd_amount bareCharge = Some 450000 \<and>
   filter (\<lambda>order. customerEmail order = ''ada@example.com'' \<and> amount order = 450000 / 100)
     [orderA, orderB] = [orderA, orderB] \<and>
   handleChargeSuccess [orderA, orderB] bareCharge ''2025-01-01T10:05:00.000Z''
     = (Applied ''ORDER_A'',
        [orderA\<lparr>paymentStatus := paid,
                paymentDetails := Some (bareCharge\<lparr>pd_orderReference := Some ''ORDER_A''\<rparr>),
                paidAt := Some ''2025-01-01T10:05:00.000Z''\<rparr>,
         orderB])"
  by (simp add: handleChargeSuccess_def resolveOrder_def method1_def method2_def method3_def
       getAllOrders_def store_defs order_defs)

end
